theory Spec2Isabelle
  imports Complex_Main "HOL-Library.Word"
begin

section \<open>JavaScript values\<close>

text \<open>
  The tool's \<open>chartConfig\<close> argument has the schema \<open>z.any()\<close>: it is whatever the
  JSON-RPC request carried, or \<open>undefined\<close> when the field is missing. The values of the
  model are therefore the JSON values and \<open>undefined\<close>. A number is a finite double, read
  here as the rational it denotes (JSON has no NaN and no infinity); only its being zero
  is ever looked at. An object is the list of its own properties, the first entry of a
  key being the property's value.
\<close>

datatype jsval =
    JUndefined
  | JNull
  | JBool bool
  | JNum rat
  | JStr string
  | JArr "jsval list"
  | JObj "(string \<times> jsval) list"

datatype jstype = TUndefined | TObject | TBoolean | TNumber | TString

text \<open>\<open>typeof v\<close>: \<open>null\<close> and arrays are of type \<open>'object'\<close>.\<close>

fun typeof :: "jsval \<Rightarrow> jstype" where
  "typeof JUndefined = TUndefined"
| "typeof JNull = TObject"
| "typeof (JBool b) = TBoolean"
| "typeof (JNum n) = TNumber"
| "typeof (JStr s) = TString"
| "typeof (JArr xs) = TObject"
| "typeof (JObj kvs) = TObject"

text \<open>
  ToBoolean, as \<open>!v\<close> and \<open>a || b\<close> use it: \<open>undefined\<close>, \<open>null\<close>, \<open>false\<close>,
  \<open>0\<close> and the empty string are falsy, every object and array is truthy.
\<close>

fun truthy :: "jsval \<Rightarrow> bool" where
  "truthy JUndefined = False"
| "truthy JNull = False"
| "truthy (JBool b) = b"
| "truthy (JNum n) = (n \<noteq> 0)"
| "truthy (JStr s) = (s \<noteq> [])"
| "truthy (JArr xs) = True"
| "truthy (JObj kvs) = True"

text \<open>
  A property read \<open>v.k\<close> for the keys the program reads (\<open>type\<close>, \<open>data\<close>,
  \<open>datasets\<close>, \<open>error\<close>, \<open>code\<close>): an object yields its own property or
  \<open>undefined\<close>; an array or a primitive has no property of these names. The program
  reads a property only of a value it has found truthy, so the TypeError of a read on
  \<open>null\<close> or \<open>undefined\<close> is never reached.
\<close>

fun get_prop :: "jsval \<Rightarrow> string \<Rightarrow> jsval" where
  "get_prop (JObj kvs) k = (case map_of kvs k of Some v \<Rightarrow> v | None \<Rightarrow> JUndefined)"
| "get_prop v k = JUndefined"

text \<open>\<open>Array.isArray(v)\<close>.\<close>

fun isArray :: "jsval \<Rightarrow> bool" where
  "isArray (JArr xs) = True"
| "isArray v = False"

text \<open>\<open>v.length\<close> of an array; read only after \<open>Array.isArray(v)\<close> has held.\<close>

fun array_length :: "jsval \<Rightarrow> nat" where
  "array_length (JArr xs) = length xs"
| "array_length v = 0"

text \<open>
  \<open>xs.includes(v)\<close> for an array of strings: SameValueZero, so only a string equal to
  an element is included.
\<close>

fun array_includes :: "string list \<Rightarrow> jsval \<Rightarrow> bool" where
  "array_includes xs (JStr s) = (s \<in> set xs)"
| "array_includes xs v = False"

text \<open>\<open>xs.join(sep)\<close> for an array of strings.\<close>

fun join :: "string \<Rightarrow> string list \<Rightarrow> string" where
  "join sep [] = []"
| "join sep [x] = x"
| "join sep (x # y # ys) = x @ sep @ join sep (y # ys)"

section \<open>The configuration validator\<close>

definition validTypes :: "string list" where
  "validTypes = [''bar'', ''line'', ''scatter'', ''bubble'', ''pie'', ''doughnut'',
     ''polarArea'', ''radar'']"

text \<open>
  \<open>validateChartConfig\<close> of \<open>index.ts\<close>. \<open>JSON.parse\<close> is the platform's; it is a
  parameter, \<open>None\<close> when it throws. A thrown \<open>Error(message)\<close> is \<open>Inl message\<close>, the
  returned configuration is \<open>Inr config\<close>.
\<close>

definition validateChartConfig :: "(string \<Rightarrow> jsval option) \<Rightarrow> jsval \<Rightarrow> string + jsval" where
  "validateChartConfig JSON_parse chartConfig =
     (case (case chartConfig of JStr s \<Rightarrow> JSON_parse s | _ \<Rightarrow> Some chartConfig) of
        None \<Rightarrow> Inl ''Chart configuration string is not valid JSON''
      | Some config \<Rightarrow>
          if \<not> truthy config \<or> typeof config \<noteq> TObject
          then Inl ''Chart configuration must be an object''
          else if \<not> truthy (get_prop config ''type'')
                  \<or> \<not> array_includes validTypes (get_prop config ''type'')
          then Inl (''Invalid chart type. Must be one of: '' @ join '', '' validTypes)
          else if \<not> truthy (get_prop config ''data'')
                  \<or> typeof (get_prop config ''data'') \<noteq> TObject
          then Inl ''Chart configuration must include a data object''
          else if \<not> truthy (get_prop (get_prop config ''data'') ''datasets'')
                  \<or> \<not> isArray (get_prop (get_prop config ''data'') ''datasets'')
          then Inl ''Chart data must include a datasets array''
          else if array_length (get_prop (get_prop config ''data'') ''datasets'') = 0
          then Inl ''Chart data must include at least one dataset''
          else Inr config)"

subsection \<open>The validator as an ordered list of checks\<close>

text \<open>
  The specification describes the validator as six checks evaluated in a fixed order,
  the first failing one giving the message. \<open>first_failing\<close> walks such a list;
  \<open>ordered_checks\<close> is the list of the five checks on the parsed value, over a
  reading \<open>is_object\<close> of "is an object" (the sixth, the parse, comes first in
  \<open>validate_ordered\<close>).
\<close>

fun first_failing :: "(bool \<times> string) list \<Rightarrow> string option" where
  "first_failing [] = None"
| "first_failing ((fails, msg) # cs) = (if fails then Some msg else first_failing cs)"

definition chart_kinds :: "jsval set" where
  "chart_kinds = {JStr ''bar'', JStr ''line'', JStr ''scatter'', JStr ''bubble'',
     JStr ''pie'', JStr ''doughnut'', JStr ''polarArea'', JStr ''radar''}"

definition ordered_checks :: "(jsval \<Rightarrow> bool) \<Rightarrow> jsval \<Rightarrow> (bool \<times> string) list" where
  "ordered_checks is_object v =
     [(\<not> is_object v, ''Chart configuration must be an object''),
      (get_prop v ''type'' \<notin> chart_kinds,
         ''Invalid chart type. Must be one of: bar, line, scatter, bubble, pie, doughnut, polarArea, radar''),
      (\<not> is_object (get_prop v ''data''), ''Chart configuration must include a data object''),
      (\<not> isArray (get_prop (get_prop v ''data'') ''datasets''),
         ''Chart data must include a datasets array''),
      (get_prop (get_prop v ''data'') ''datasets'' = JArr [],
         ''Chart data must include at least one dataset'')]"

definition validate_ordered ::
    "(jsval \<Rightarrow> bool) \<Rightarrow> (string \<Rightarrow> jsval option) \<Rightarrow> jsval \<Rightarrow> string + jsval" where
  "validate_ordered is_object JSON_parse input =
     (case (case input of JStr s \<Rightarrow> JSON_parse s | _ \<Rightarrow> Some input) of
        None \<Rightarrow> Inl ''Chart configuration string is not valid JSON''
      | Some v \<Rightarrow>
          (case first_failing (ordered_checks is_object v) of
             Some msg \<Rightarrow> Inl msg
           | None \<Rightarrow> Inr v))"

text \<open>"Is an object" as a language-neutral reader takes it: a keyed record, not a sequence.\<close>

fun is_record :: "jsval \<Rightarrow> bool" where
  "is_record (JObj kvs) = True"
| "is_record v = False"

text \<open>"Is an object" as the code tests it: truthy and of type \<open>'object'\<close>, so an array too.\<close>

definition is_js_object :: "jsval \<Rightarrow> bool" where
  "is_js_object v = (truthy v \<and> typeof v = TObject)"

section \<open>The tool endpoint\<close>

text \<open>
  A content block of the protocol response. A text block carries its text, an optional
  \<open>mimeType\<close> and an optional \<open>_meta.mimeType\<close>; an image block carries its data and
  its \<open>mimeType\<close>.
\<close>

datatype content_block =
    TextContent string "string option" "string option"
  | ImageContent string string

fun is_image :: "content_block \<Rightarrow> bool" where
  "is_image (ImageContent d m) = True"
| "is_image (TextContent t m mm) = False"

datatype output_format = Png | Html

text \<open>
  What \<open>generateChart\<close> of \<open>chart-generator.js\<close> resolves to, as the handler reads it:
  \<open>success\<close> and \<open>message\<close> always, the other three fields when present.
\<close>

record render_result =
  success :: bool
  message :: string
  htmlSnippet :: "string option"
  buffer :: "8 word list option"
  pngFilePath :: "string option"

text \<open>
  \<open>buffer.toString('base64')\<close> of the platform: RFC 4648 base64 with padding, three
  bytes to four characters.
\<close>

definition b64_char :: "nat \<Rightarrow> char" where
  "b64_char n =
     ''ABCDEFGHIJKLMNOPQRSTUVWXYZabcdefghijklmnopqrstuvwxyz0123456789+/'' ! (n mod 64)"

fun base64 :: "8 word list \<Rightarrow> string" where
  "base64 [] = []"
| "base64 [a] =
     [b64_char (unat a div 4), b64_char (unat a mod 4 * 16), CHR ''='', CHR ''='']"
| "base64 [a, b] =
     [b64_char (unat a div 4), b64_char (unat a mod 4 * 16 + unat b div 16),
      b64_char (unat b mod 16 * 4), CHR ''='']"
| "base64 (a # b # c # rest) =
     [b64_char (unat a div 4), b64_char (unat a mod 4 * 16 + unat b div 16),
      b64_char (unat b mod 16 * 4 + unat c div 64), b64_char (unat c mod 64)]
     @ base64 rest"

definition troubleshooting_footer :: string where
  "troubleshooting_footer =
     ''\<newline>\<newline>Please ensure your configuration follows the Chart.js v4 schema. Common issues:''
     @ ''\<newline>- Check data format matches chart type (e.g., scatter charts need {x, y} objects)''
     @ ''\<newline>- Verify all required dataset properties are provided''
     @ ''\<newline>- Ensure chart type is supported: ''
     @ join '', '' [''bar'', ''line'', ''scatter'', ''bubble'', ''pie'', ''doughnut'',
         ''polarArea'', ''radar'']"

text \<open>
  The handler registered for the tool \<open>generateChart\<close>. \<open>generateChart\<close> (the render
  adapter) is a parameter; \<open>await\<close> makes its rejection the handler's own, which is
  \<open>Inl\<close> here: a fault of the protocol call. \<open>Inr\<close> is the returned content array.
  \<open>if (result.htmlSnippet)\<close> and \<open>if (result.pngFilePath)\<close> ask for a non-empty
  string, \<open>if (result.buffer)\<close> for any buffer.
\<close>

definition generateChart_handler ::
    "(string \<Rightarrow> jsval option) \<Rightarrow> (jsval \<Rightarrow> output_format \<Rightarrow> bool \<Rightarrow> string + render_result)
      \<Rightarrow> jsval \<Rightarrow> output_format \<Rightarrow> bool \<Rightarrow> string + content_block list" where
  "generateChart_handler JSON_parse generateChart chartConfig outputFormat saveToFile =
     (case validateChartConfig JSON_parse chartConfig of
        Inl msg \<Rightarrow> Inr [TextContent (''Error: '' @ msg) None None]
      | Inr parsedChartConfig \<Rightarrow>
          (case generateChart parsedChartConfig outputFormat saveToFile of
             Inl rejection \<Rightarrow> Inl rejection
           | Inr result \<Rightarrow>
               if success result then
                 (case htmlSnippet result of
                    Some (c # cs) \<Rightarrow>
                      Inr [TextContent (c # cs) (Some ''text/html'') (Some ''text/html'')]
                  | _ \<Rightarrow>
                      (case buffer result of
                         Some bytes \<Rightarrow> Inr [ImageContent (base64 bytes) ''image/png'']
                       | None \<Rightarrow>
                           (case pngFilePath result of
                              Some (c # cs) \<Rightarrow> Inr [TextContent (c # cs) None None]
                            | _ \<Rightarrow> Inr [TextContent (message result) None None])))
               else Inr [TextContent (message result @ troubleshooting_footer) None None]))"

subsection \<open>The render adapter\<close>

text \<open>
  Modelled from the spec: the render adapter (\<open>chart-generator.js\<close>, imported by
  \<open>index.ts\<close>) is not among the sources. Section 3 gives its result as a sum type with
  exactly one variant populated, section 4.2 its contract: for \<open>html\<close> a markup
  fragment; for \<open>png\<close> the image bytes, or the path of the file they were saved to when
  \<open>saveToFile\<close> holds, exactly one of the two; an exception of the charting engine is
  caught and becomes \<open>Failure\<close> with the engine's message. The charting engine and the
  file system are the parameters \<open>chart_engine\<close>: \<open>Inl\<close> is what the engine throws.
\<close>

datatype RenderResult =
    Png_bytes "8 word list"
  | Png_path string
  | Html_markup string
  | Failure string

record chart_engine =
  draw_html :: "jsval \<Rightarrow> string + string"
  draw_png :: "jsval \<Rightarrow> string + 8 word list"
  save_png :: "8 word list \<Rightarrow> string"

definition render :: "chart_engine \<Rightarrow> jsval \<Rightarrow> output_format \<Rightarrow> bool \<Rightarrow> RenderResult" where
  "render engine config fmt saveToFile =
     (case fmt of
        Html \<Rightarrow>
          (case draw_html engine config of
             Inl msg \<Rightarrow> Failure msg
           | Inr markup \<Rightarrow> Html_markup markup)
      | Png \<Rightarrow>
          (case draw_png engine config of
             Inl msg \<Rightarrow> Failure msg
           | Inr bytes \<Rightarrow>
               if saveToFile then Png_path (save_png engine bytes) else Png_bytes bytes))"

text \<open>
  Modelled from the spec: the variant as the record the handler reads, one field
  populated per variant (section 3); the sum type gives a success no message.
\<close>

fun as_result :: "RenderResult \<Rightarrow> render_result" where
  "as_result (Png_bytes bytes) =
     \<lparr>success = True, message = [], htmlSnippet = None, buffer = Some bytes,
      pngFilePath = None\<rparr>"
| "as_result (Png_path path) =
     \<lparr>success = True, message = [], htmlSnippet = None, buffer = None,
      pngFilePath = Some path\<rparr>"
| "as_result (Html_markup markup) =
     \<lparr>success = True, message = [], htmlSnippet = Some markup, buffer = None,
      pngFilePath = None\<rparr>"
| "as_result (Failure msg) =
     \<lparr>success = False, message = msg, htmlSnippet = None, buffer = None,
      pngFilePath = None\<rparr>"

text \<open>
  Modelled from the spec: \<open>generateChart\<close> as the handler calls it. By section 4.2 it
  never lets an exception cross the tool boundary, so it always resolves.
\<close>

definition generateChart_spec ::
    "chart_engine \<Rightarrow> jsval \<Rightarrow> output_format \<Rightarrow> bool \<Rightarrow> string + render_result" where
  "generateChart_spec engine config fmt saveToFile =
     Inr (as_result (render engine config fmt saveToFile))"

section \<open>The session transport registry\<close>

text \<open>
  \<open>startHttpServer\<close> keeps \<open>transports\<close>, a map from session id to transport. A
  transport is an object of the protocol SDK; the model names it by the number of
  transports constructed before it, and keeps the one field of it the code reads,
  \<open>sessionId\<close>, in the state beside the map.
\<close>

record registry =
  transports :: "string \<rightharpoonup> nat"
  sessionId :: "nat \<rightharpoonup> string"
  constructed :: nat

text \<open>
  Where a request ends: at a stored transport, at a transport constructed for it (both
  through \<open>handleRequest\<close>), or in a response written by the server itself, given by its
  status and the value passed to \<open>JSON.stringify\<close> for the body.
\<close>

datatype route = Reuse nat | Create nat | Respond nat jsval

text \<open>\<open>sessionId\<close> as a condition: the header is present and not the empty string.\<close>

fun truthy_header :: "string option \<Rightarrow> bool" where
  "truthy_header (Some (c # cs)) = True"
| "truthy_header h = False"

text \<open>
  \<open>sessionId && transports.has(sessionId)\<close>, with \<open>transports.get(sessionId)\<close> when it
  holds.
\<close>

fun stored_transport :: "registry \<Rightarrow> string option \<Rightarrow> nat option" where
  "stored_transport s (Some (c # cs)) = transports s (c # cs)"
| "stored_transport s h = None"

definition no_session_body :: jsval where
  "no_session_body =
     JObj [(''jsonrpc'', JStr ''2.0''),
           (''error'', JObj [(''code'', JNum (- 32000)),
              (''message'',
               JStr ''Bad Request: No valid session. Send an initialization request first.'')]),
           (''id'', JNull)]"

text \<open>
  The request listener of \<open>startHttpServer\<close>, on the path of the URL, the method and
  the value of the header \<open>mcp-session-id\<close> (\<open>None\<close> when the request has none).
\<close>

definition request_listener ::
    "registry \<Rightarrow> string \<Rightarrow> string \<Rightarrow> string option \<Rightarrow> route \<times> registry" where
  "request_listener s pathname method header =
     (if pathname = ''/mcp'' then
        (case stored_transport s header of
           Some httpTransport \<Rightarrow> (Reuse httpTransport, s)
         | None \<Rightarrow>
             if \<not> truthy_header header \<and> method = ''POST''
             then (Create (constructed s), s\<lparr>constructed := Suc (constructed s)\<rparr>)
             else (Respond 400 no_session_body, s))
      else if pathname = ''/health''
      then (Respond 200 (JObj [(''status'', JStr ''ok''), (''transport'', JStr ''streamable-http'')]), s)
      else (Respond 404 (JObj [(''error'', JStr ''Not Found'')]), s))"

text \<open>The callback \<open>onsessioninitialized\<close> given to transport \<open>t\<close>.\<close>

definition onsessioninitialized :: "nat \<Rightarrow> string \<Rightarrow> registry \<Rightarrow> registry" where
  "onsessioninitialized t newSessionId s = s\<lparr>transports := (transports s)(newSessionId \<mapsto> t)\<rparr>"

text \<open>The callback \<open>onclose\<close> set on transport \<open>t\<close>.\<close>

definition onclose :: "nat \<Rightarrow> registry \<Rightarrow> registry" where
  "onclose t s =
     (case sessionId s t of
        Some (c # cs) \<Rightarrow> s\<lparr>transports := (transports s)(c # cs := None)\<rparr>
      | _ \<Rightarrow> s)"

text \<open>
  The initialization handshake of transport \<open>t\<close>, as section 4.4 of the specification
  has it: the transport is assigned the id its generator produced and the callback
  stores it. The generator is \<open>randomUUID\<close>; its result is the argument \<open>sid\<close>.
\<close>

definition handshake :: "nat \<Rightarrow> string \<Rightarrow> registry \<Rightarrow> registry" where
  "handshake t sid s = onsessioninitialized t sid (s\<lparr>sessionId := (sessionId s)(t \<mapsto> sid)\<rparr>)"

definition empty_registry :: registry where
  "empty_registry = \<lparr>transports = Map.empty, sessionId = Map.empty, constructed = 0\<rparr>"

text \<open>
  What happens to the registry, one event at a time: a request reaches the listener, a
  transport completes its handshake, a transport reports its closure. The listener's
  work on the registry is done before its first \<open>await\<close>, so each event is one step.
\<close>

datatype event = Request string string "string option" | Handshake nat string | Closed nat

fun step :: "registry \<Rightarrow> event \<Rightarrow> registry" where
  "step s (Request pathname method header) = snd (request_listener s pathname method header)"
| "step s (Handshake t sid) = handshake t sid s"
| "step s (Closed t) = onclose t s"

definition run :: "registry \<Rightarrow> event list \<Rightarrow> registry" where
  "run s es = foldl step s es"

text \<open>
  The events that are not the handshake or the closure of transport \<open>t\<close> and do not
  hand out the id \<open>sid\<close> again (the generator's ids are unique).
\<close>

fun other_session :: "string \<Rightarrow> nat \<Rightarrow> event \<Rightarrow> bool" where
  "other_session sid t (Request pathname method header) = True"
| "other_session sid t (Handshake t' sid') = (t' \<noteq> t \<and> sid' \<noteq> sid)"
| "other_session sid t (Closed t') = (t' \<noteq> t)"

text \<open>The invariant of a live session: \<open>sid\<close> is stored for \<open>t\<close>, and is the id of \<open>t\<close> only.\<close>

definition owns :: "registry \<Rightarrow> string \<Rightarrow> nat \<Rightarrow> bool" where
  "owns s sid t = (transports s sid = Some t \<and> (\<forall>t'. sessionId s t' = Some sid \<longrightarrow> t' = t))"

section \<open>The process entry point\<close>

text \<open>
  The strings of the entry point (the command-line arguments and \<open>process.env.PORT\<close>)
  are read character by character, white space included, so they are modelled as
  JavaScript has them: lists of UTF-16 code units. \<open>js\<close> is such a string for an ASCII
  literal of the source.
\<close>

type_synonym jsstring = "16 word list"

definition js :: "string \<Rightarrow> jsstring" where
  "js s = map of_char s"

text \<open>\<open>s.startsWith(prefix)\<close>.\<close>

definition startsWith :: "'a list \<Rightarrow> 'a list \<Rightarrow> bool" where
  "startsWith s prefix = (take (length prefix) s = prefix)"

text \<open>\<open>s.split(c)\<close> for a one-character separator: never an empty array.\<close>

fun split :: "'a \<Rightarrow> 'a list \<Rightarrow> 'a list list" where
  "split c [] = [[]]"
| "split c (x # xs) =
     (if x = c then [] # split c xs
      else (case split c xs of
              [] \<Rightarrow> [[x]]
            | y # ys \<Rightarrow> (x # y) # ys))"

text \<open>\<open>arg?.split('=')[1]\<close>: \<open>None\<close> is \<open>undefined\<close>; \<open>0x3D\<close> is the character \<open>=\<close>.\<close>

definition value_of_arg :: "jsstring option \<Rightarrow> jsstring option" where
  "value_of_arg arg =
     (case arg of
        None \<Rightarrow> None
      | Some a \<Rightarrow> (case split 0x3D a of p # v # rest \<Rightarrow> Some v | _ \<Rightarrow> None))"

text \<open>\<open>a || b\<close> on a string that may be \<open>undefined\<close>: \<open>b\<close> unless \<open>a\<close> is a non-empty string.\<close>

fun or_else :: "'a list option \<Rightarrow> 'a list \<Rightarrow> 'a list" where
  "or_else (Some (c # cs)) d = c # cs"
| "or_else a d = d"

text \<open>
  The numbers \<open>parseInt\<close> returns: \<open>NaN\<close>, an integer held by a double, or an
  infinity. Minus zero is \<open>Number 0\<close>.
\<close>

datatype jsnumber = NaN | Number int | PosInfinity | NegInfinity

text \<open>
  The white space \<open>parseInt\<close> skips (WhiteSpace and LineTerminator of the language:
  tab, line feed, vertical tab, form feed, carriage return, space, no-break space, the
  space separators of Unicode, the line and paragraph separators and the byte order
  mark) and the decimal digits \<open>0\<close> to \<open>9\<close>.
\<close>

definition is_space :: "16 word \<Rightarrow> bool" where
  "is_space u = (u \<in> set [0x0009, 0x000A, 0x000B, 0x000C, 0x000D, 0x0020, 0x00A0, 0x1680,
     0x2000, 0x2001, 0x2002, 0x2003, 0x2004, 0x2005, 0x2006, 0x2007, 0x2008, 0x2009, 0x200A,
     0x2028, 0x2029, 0x202F, 0x205F, 0x3000, 0xFEFF])"

definition is_digit :: "16 word \<Rightarrow> bool" where
  "is_digit u = (u \<in> set [0x30, 0x31, 0x32, 0x33, 0x34, 0x35, 0x36, 0x37, 0x38, 0x39])"

definition digits_value :: "jsstring \<Rightarrow> nat" where
  "digits_value ds = foldl (\<lambda>acc d. 10 * acc + (unat d - 48)) 0 ds"

text \<open>
  The double nearest to a natural number, as a number again: below \<open>2^53\<close> the number
  itself; above, the number rounded to 53 significant bits, a tie going to the even
  one; \<open>None\<close> when the rounded number is beyond the largest double.
\<close>

fun bit_length :: "nat \<Rightarrow> nat" where
  "bit_length n = (if n = 0 then 0 else Suc (bit_length (n div 2)))"

declare bit_length.simps [simp del]

definition to_double :: "nat \<Rightarrow> nat option" where
  "to_double n =
     (if n < 2 ^ 53 then Some n
      else
        let shift = bit_length n - 53;
            q = n div 2 ^ shift;
            r = n mod 2 ^ shift;
            half = 2 ^ (shift - 1);
            m = (if half < r \<or> (r = half \<and> odd q) then q + 1 else q) * 2 ^ shift
        in if 2 ^ 1024 \<le> m then None else Some m)"

text \<open>
  \<open>parseInt(s, 10)\<close>: leading white space is skipped, a sign is read (\<open>0x2D\<close> is
  \<open>-\<close>, \<open>0x2B\<close> is \<open>+\<close>), then the longest run of decimal digits; without a digit
  the result is \<open>NaN\<close>, otherwise the double nearest to the integer the digits denote,
  with the sign. (All digits count; the language lets an implementation read those
  after the twentieth as zeros.)
\<close>

definition parseInt :: "jsstring \<Rightarrow> jsnumber" where
  "parseInt s =
     (let t = dropWhile is_space s;
          negative = (case t of c # cs \<Rightarrow> c = 0x2D | [] \<Rightarrow> False);
          u = (case t of c # cs \<Rightarrow> if c = 0x2D \<or> c = 0x2B then cs else t | [] \<Rightarrow> t);
          ds = takeWhile is_digit u
      in if ds = [] then NaN
         else (case to_double (digits_value ds) of
                 None \<Rightarrow> if negative then NegInfinity else PosInfinity
               | Some m \<Rightarrow> Number (if negative then - int m else int m)))"

text \<open>
  The two module-level constants: \<open>args\<close> is \<open>process.argv.slice(2)\<close>, \<open>PORT\<close> is
  \<open>process.env.PORT\<close>.
\<close>

definition transport :: "jsstring list \<Rightarrow> jsstring" where
  "transport args =
     or_else (value_of_arg (find (\<lambda>arg. startsWith arg (js ''--transport='')) args))
       (js ''stdio'')"

definition port :: "jsstring list \<Rightarrow> jsstring option \<Rightarrow> jsnumber" where
  "port args PORT =
     parseInt (or_else PORT
       (or_else (value_of_arg (find (\<lambda>arg. startsWith arg (js ''--port='')) args))
          (js ''3000'')))"

text \<open>What \<open>main\<close> starts: the HTTP listener on \<open>port\<close>, or the stdio transport.\<close>

datatype started = Stdio | StreamableHttp jsnumber

definition main :: "jsstring list \<Rightarrow> jsstring option \<Rightarrow> started" where
  "main args PORT =
     (if transport args = js ''streamable-http'' then StreamableHttp (port args PORT)
      else Stdio)"

section \<open>Sample inputs\<close>

text \<open>The bar chart of the specification's scenario, as a value and as JSON text.\<close>

definition bar_config :: jsval where
  "bar_config =
     JObj [(''type'', JStr ''bar''),
           (''data'', JObj [(''labels'', JArr [JStr ''Q1'', JStr ''Q2'']),
              (''datasets'', JArr [JObj [(''label'', JStr ''Sales''),
                 (''data'', JArr [JNum 50, JNum 75])]])])]"

definition quoted :: "string \<Rightarrow> string" where
  "quoted s = CHR 0x22 # s @ [CHR 0x22]"

definition bar_text :: string where
  "bar_text =
     ''{'' @ quoted ''type'' @ '':'' @ quoted ''bar'' @ '','' @ quoted ''data'' @ '':{''
     @ quoted ''labels'' @ '':['' @ quoted ''Q1'' @ '','' @ quoted ''Q2'' @ ''],''
     @ quoted ''datasets'' @ '':[{'' @ quoted ''label'' @ '':'' @ quoted ''Sales'' @ '',''
     @ quoted ''data'' @ '':[50,75]}]}}''"

text \<open>
  \<open>JSON.parse\<close> on the texts the examples use: the bar chart, the JSON string
  \<open>"abc"\<close> and the JSON array \<open>[]\<close>. On \<open>abc\<close>, which is no JSON text, it throws.
  Other texts are not used.
\<close>

definition sample_JSON_parse :: "string \<Rightarrow> jsval option" where
  "sample_JSON_parse =
     map_of [(bar_text, bar_config), (quoted ''abc'', JStr ''abc''), (''[]'', JArr [])]"

text \<open>An engine that draws, and one that throws on every configuration.\<close>

definition sample_engine :: chart_engine where
  "sample_engine =
     \<lparr>draw_html = (\<lambda>config. Inr ''<div><canvas id=chart-1></canvas></div>''),
      draw_png = (\<lambda>config. Inr [0x89, 0x50, 0x4E, 0x47]),
      save_png = (\<lambda>bytes. ''chart-1.png'')\<rparr>"

definition failing_engine :: chart_engine where
  "failing_engine =
     \<lparr>draw_html = (\<lambda>config. Inl ''Error generating chart''),
      draw_png = (\<lambda>config. Inl ''Error generating chart''),
      save_png = (\<lambda>bytes. ''chart-1.png'')\<rparr>"

section \<open>Facts about the validator\<close>

lemma join_validTypes:
  "join '', '' validTypes = ''bar, line, scatter, bubble, pie, doughnut, polarArea, radar''"
  by (simp add: validTypes_def)

lemma type_check_iff:
  "(\<not> truthy t \<or> \<not> array_includes validTypes t) = (t \<notin> chart_kinds)"
  by (cases t) (auto simp: validTypes_def chart_kinds_def)

lemma object_check_iff:
  "(\<not> truthy v \<or> typeof v \<noteq> TObject) = (\<not> is_js_object v)"
  by (simp add: is_js_object_def)

lemma datasets_check_iff:
  "(\<not> truthy d \<or> \<not> isArray d) = (\<not> isArray d)"
  by (cases d) auto

lemma empty_check_iff:
  "isArray d \<Longrightarrow> (array_length d = 0) = (d = JArr [])"
  by (cases d) auto

lemma bar_config_valid: "validateChartConfig JSON_parse bar_config = Inr bar_config"
  by (simp add: validateChartConfig_def bar_config_def validTypes_def)

lemma sample_parse_bar: "sample_JSON_parse bar_text = Some bar_config"
  by (simp add: sample_JSON_parse_def)

lemma sample_parse_quoted: "sample_JSON_parse (quoted ''abc'') = Some (JStr ''abc'')"
  by (simp add: sample_JSON_parse_def quoted_def bar_text_def)

lemma sample_parse_abc: "sample_JSON_parse ''abc'' = None"
  by (simp add: sample_JSON_parse_def quoted_def bar_text_def)

text \<open>
  C1, as stated, with "object" read as a keyed record: an array is no such object, so
  the first failing check of the claim's list is the second and the message would be
  that the configuration must be an object. The code takes an array for an object
  (\<open>typeof [] === 'object'\<close>) and reports the third check, the chart type; the
  same holds for the array given as JSON text, and an array as \<open>data\<close> passes the
  fourth check and is reported by the fifth.
\<close>

theorem validator_array_counterexample:
  "validateChartConfig sample_JSON_parse (JArr []) =
     Inl ''Invalid chart type. Must be one of: bar, line, scatter, bubble, pie, doughnut, polarArea, radar''
   \<and> validate_ordered is_record sample_JSON_parse (JArr []) =
     Inl ''Chart configuration must be an object''
   \<and> validateChartConfig sample_JSON_parse (JStr ''[]'') =
     Inl ''Invalid chart type. Must be one of: bar, line, scatter, bubble, pie, doughnut, polarArea, radar''
   \<and> validate_ordered is_record sample_JSON_parse (JStr ''[]'') =
     Inl ''Chart configuration must be an object''
   \<and> validateChartConfig sample_JSON_parse (JObj [(''type'', JStr ''bar''), (''data'', JArr [])]) =
     Inl ''Chart data must include a datasets array''
   \<and> validate_ordered is_record sample_JSON_parse
       (JObj [(''type'', JStr ''bar''), (''data'', JArr [])]) =
     Inl ''Chart configuration must include a data object''"
proof -
  have parsed: "sample_JSON_parse ''[]'' = Some (JArr [])"
    by (simp add: sample_JSON_parse_def bar_text_def quoted_def)
  show ?thesis
    by (simp add: validateChartConfig_def validate_ordered_def ordered_checks_def
        join_validTypes parsed validTypes_def chart_kinds_def)
qed

text \<open>
  C1, amended: the validator is the ordered list of checks, the first failing one giving
  the message and an input failing none being returned (parsed, if it was a string),
  where "is an object" in the second and fourth check means a non-null value of type
  \<open>'object'\<close>, arrays included.
\<close>

theorem validator_ordered_checks:
  "validateChartConfig JSON_parse input = validate_ordered is_js_object JSON_parse input"
proof -
  have step: "(if \<not> truthy config \<or> typeof config \<noteq> TObject
          then Inl ''Chart configuration must be an object''
          else if \<not> truthy (get_prop config ''type'')
                  \<or> \<not> array_includes validTypes (get_prop config ''type'')
          then Inl (''Invalid chart type. Must be one of: '' @ join '', '' validTypes)
          else if \<not> truthy (get_prop config ''data'')
                  \<or> typeof (get_prop config ''data'') \<noteq> TObject
          then Inl ''Chart configuration must include a data object''
          else if \<not> truthy (get_prop (get_prop config ''data'') ''datasets'')
                  \<or> \<not> isArray (get_prop (get_prop config ''data'') ''datasets'')
          then Inl ''Chart data must include a datasets array''
          else if array_length (get_prop (get_prop config ''data'') ''datasets'') = 0
          then Inl ''Chart data must include at least one dataset''
          else Inr config)
     = (case first_failing (ordered_checks is_js_object config) of
             Some msg \<Rightarrow> Inl msg
           | None \<Rightarrow> Inr config)" for config
    unfolding type_check_iff object_check_iff datasets_check_iff join_validTypes
    by (simp add: ordered_checks_def empty_check_iff)
  show ?thesis
    unfolding validateChartConfig_def validate_ordered_def
    by (simp only: step)
qed

theorem validator_ordered_checks_witness:
  "validateChartConfig sample_JSON_parse (JStr bar_text) = Inr bar_config
   \<and> validate_ordered is_js_object sample_JSON_parse (JStr bar_text) = Inr bar_config"
proof -
  have "validate_ordered is_js_object sample_JSON_parse (JStr bar_text) = Inr bar_config"
    by (simp add: validate_ordered_def sample_parse_bar ordered_checks_def bar_config_def
        is_js_object_def chart_kinds_def)
  with validator_ordered_checks [of sample_JSON_parse "JStr bar_text"] show ?thesis by simp
qed

text \<open>
  A string input is parsed exactly once. So a text that parses to a string is not
  treated as that string would be when given directly: the text \<open>"abc"\<close> parses to the
  string \<open>abc\<close>, which is rejected as no object, while the string \<open>abc\<close> given
  directly is parsed in its turn and rejected as no JSON.
\<close>

lemma string_value_parsed_again:
  "sample_JSON_parse (quoted ''abc'') = Some (JStr ''abc'')
   \<and> validateChartConfig sample_JSON_parse (JStr (quoted ''abc'')) =
       Inl ''Chart configuration must be an object''
   \<and> validateChartConfig sample_JSON_parse (JStr ''abc'') =
       Inl ''Chart configuration string is not valid JSON''"
  by (simp add: sample_parse_quoted sample_parse_abc validateChartConfig_def)

text \<open>
  C10: for every string input that parses as JSON, validating the string gives the same
  outcome (the same returned configuration or the same message) as validating the
  parsed value supplied directly as an object, that is as any value that is not itself
  a string; so validation of an object and of its JSON serialization agree.
\<close>

theorem parsed_value_agrees:
  assumes "JSON_parse s = Some v" and "typeof v \<noteq> TString"
  shows "validateChartConfig JSON_parse (JStr s) = validateChartConfig JSON_parse v"
  using assms by (cases v) (simp_all add: validateChartConfig_def)

theorem parsed_value_agrees_witness:
  "sample_JSON_parse bar_text = Some bar_config
   \<and> typeof bar_config \<noteq> TString
   \<and> validateChartConfig sample_JSON_parse (JStr bar_text) =
       validateChartConfig sample_JSON_parse bar_config
   \<and> validateChartConfig sample_JSON_parse bar_config = Inr bar_config"
proof -
  have ty: "typeof bar_config \<noteq> TString" by (simp add: bar_config_def)
  from parsed_value_agrees [of sample_JSON_parse bar_text bar_config] sample_parse_bar ty
    bar_config_valid
  show ?thesis by simp
qed

section \<open>Facts about the tool endpoint\<close>

lemma footer_text:
  "troubleshooting_footer =
     ''\<newline>\<newline>Please ensure your configuration follows the Chart.js v4 schema. Common issues:\<newline>- Check data format matches chart type (e.g., scatter charts need {x, y} objects)\<newline>- Verify all required dataset properties are provided\<newline>- Ensure chart type is supported: bar, line, scatter, bubble, pie, doughnut, polarArea, radar''"
  by (simp add: troubleshooting_footer_def)

lemma handler_failure:
  assumes "validateChartConfig JSON_parse chartConfig = Inr config"
    and "generateChart config outputFormat saveToFile = Inr result"
    and "\<not> success result"
  shows "generateChart_handler JSON_parse generateChart chartConfig outputFormat saveToFile =
           Inr [TextContent (message result @ troubleshooting_footer) None None]"
  using assms by (simp add: generateChart_handler_def)

lemma handler_html:
  assumes "validateChartConfig JSON_parse chartConfig = Inr config"
    and "generateChart config outputFormat saveToFile = Inr result"
    and "success result" and "htmlSnippet result = Some markup" and "markup \<noteq> []"
  shows "generateChart_handler JSON_parse generateChart chartConfig outputFormat saveToFile =
           Inr [TextContent markup (Some ''text/html'') (Some ''text/html'')]"
  using assms by (simp add: generateChart_handler_def split: list.splits)

lemma handler_image:
  assumes "validateChartConfig JSON_parse chartConfig = Inr config"
    and "generateChart config outputFormat saveToFile = Inr result"
    and "success result" and "htmlSnippet result = None \<or> htmlSnippet result = Some []"
    and "buffer result = Some bytes"
  shows "generateChart_handler JSON_parse generateChart chartConfig outputFormat saveToFile =
           Inr [ImageContent (base64 bytes) ''image/png'']"
  using assms by (auto simp add: generateChart_handler_def split: list.splits)

lemma handler_path:
  assumes "validateChartConfig JSON_parse chartConfig = Inr config"
    and "generateChart config outputFormat saveToFile = Inr result"
    and "success result" and "htmlSnippet result = None \<or> htmlSnippet result = Some []"
    and "buffer result = None" and "pngFilePath result = Some path" and "path \<noteq> []"
  shows "generateChart_handler JSON_parse generateChart chartConfig outputFormat saveToFile =
           Inr [TextContent path None None]"
  using assms by (auto simp add: generateChart_handler_def split: list.splits)

lemma handler_fallback:
  assumes "validateChartConfig JSON_parse chartConfig = Inr config"
    and "generateChart config outputFormat saveToFile = Inr result"
    and "success result" and "htmlSnippet result = None \<or> htmlSnippet result = Some []"
    and "buffer result = None" and "pngFilePath result = None \<or> pngFilePath result = Some []"
  shows "generateChart_handler JSON_parse generateChart chartConfig outputFormat saveToFile =
           Inr [TextContent (message result) None None]"
  using assms by (auto simp add: generateChart_handler_def split: list.splits)

lemma handler_one_block:
  assumes "\<And>config. \<exists>result. generateChart config outputFormat saveToFile = Inr result"
  shows "\<exists>block. generateChart_handler JSON_parse generateChart chartConfig outputFormat saveToFile =
           Inr [block]"
proof (cases "validateChartConfig JSON_parse chartConfig")
  case (Inl msg)
  then show ?thesis by (simp add: generateChart_handler_def)
next
  case (Inr config)
  from assms obtain result where "generateChart config outputFormat saveToFile = Inr result"
    by blast
  with Inr show ?thesis
    by (simp add: generateChart_handler_def split: option.splits list.splits)
qed

lemma base64_sample: "base64 [0x89, 0x50, 0x4E, 0x47] = ''iVBORw==''"
  by (simp add: b64_char_def)

text \<open>
  C2: whenever validation fails, with whatever render adapter, the handler returns (it
  does not fault) a content array of exactly one text block, whose text is
  \<open>Error: \<close> followed by the validator's message.
\<close>

theorem handler_validation_error:
  assumes "validateChartConfig JSON_parse chartConfig = Inl msg"
  shows "generateChart_handler JSON_parse generateChart chartConfig outputFormat saveToFile =
           Inr [TextContent (''Error: '' @ msg) None None]"
  using assms by (simp add: generateChart_handler_def)

theorem handler_validation_error_witness:
  "validateChartConfig sample_JSON_parse
       (JObj [(''type'', JStr ''line''), (''data'', JObj [])]) =
     Inl ''Chart data must include a datasets array''
   \<and> generateChart_handler sample_JSON_parse (generateChart_spec failing_engine)
       (JObj [(''type'', JStr ''line''), (''data'', JObj [])]) Png False =
     Inr [TextContent ''Error: Chart data must include a datasets array'' None None]"
proof -
  have invalid: "validateChartConfig sample_JSON_parse
          (JObj [(''type'', JStr ''line''), (''data'', JObj [])]) =
        Inl ''Chart data must include a datasets array''"
    by (simp add: validateChartConfig_def validTypes_def)
  from handler_validation_error [OF invalid] invalid show ?thesis by simp
qed

text \<open>
  C5: for every configuration that passes validation and whose render resolves to a
  result without success, the handler returns exactly one text block: the result's
  message followed by the fixed footer, which names the eight chart types and the
  common pitfalls of the data's shape.
\<close>

theorem handler_render_failure:
  assumes "validateChartConfig JSON_parse chartConfig = Inr config"
    and "generateChart config outputFormat saveToFile = Inr result"
    and "\<not> success result"
  shows "generateChart_handler JSON_parse generateChart chartConfig outputFormat saveToFile =
           Inr [TextContent (message result @ troubleshooting_footer) None None]
         \<and> troubleshooting_footer =
           ''\<newline>\<newline>Please ensure your configuration follows the Chart.js v4 schema. Common issues:\<newline>- Check data format matches chart type (e.g., scatter charts need {x, y} objects)\<newline>- Verify all required dataset properties are provided\<newline>- Ensure chart type is supported: bar, line, scatter, bubble, pie, doughnut, polarArea, radar''"
  using assms footer_text by (simp add: generateChart_handler_def)

theorem handler_render_failure_witness:
  "validateChartConfig sample_JSON_parse (JStr bar_text) = Inr bar_config
   \<and> generateChart_handler sample_JSON_parse
       (\<lambda>config fmt save. Inr \<lparr>success = False, message = ''Error generating chart: no data'',
          htmlSnippet = None, buffer = None, pngFilePath = None\<rparr>)
       (JStr bar_text) Html True =
     Inr [TextContent (''Error generating chart: no data'' @ troubleshooting_footer) None None]"
proof -
  have valid: "validateChartConfig sample_JSON_parse (JStr bar_text) = Inr bar_config"
    by (simp add: validateChartConfig_def sample_parse_bar bar_config_def validTypes_def)
  from handler_render_failure [of sample_JSON_parse "JStr bar_text" bar_config
      "\<lambda>config fmt save. Inr \<lparr>success = False, message = ''Error generating chart: no data'',
          htmlSnippet = None, buffer = None, pngFilePath = None\<rparr>" Html True] valid
  show ?thesis by simp
qed

text \<open>
  C9: for every configuration, output format and \<open>saveToFile\<close>, and whatever result the
  render resolves to, the handler returns a content array of length exactly one; a
  successful result with none of \<open>htmlSnippet\<close>, \<open>buffer\<close> and \<open>pngFilePath\<close> populated
  gives the fallback, a text block carrying the result's message.
\<close>

theorem handler_single_block:
  "(\<exists>blocks. generateChart_handler JSON_parse (\<lambda>config fmt save. Inr (result_of config fmt save))
        chartConfig outputFormat saveToFile = Inr blocks \<and> length blocks = 1)
   \<and> (validateChartConfig JSON_parse chartConfig = Inr config
        \<and> success (result_of config outputFormat saveToFile)
        \<and> htmlSnippet (result_of config outputFormat saveToFile) = None
        \<and> buffer (result_of config outputFormat saveToFile) = None
        \<and> pngFilePath (result_of config outputFormat saveToFile) = None
      \<longrightarrow> generateChart_handler JSON_parse (\<lambda>config fmt save. Inr (result_of config fmt save))
            chartConfig outputFormat saveToFile =
          Inr [TextContent (message (result_of config outputFormat saveToFile)) None None])"
proof -
  have "\<exists>block. generateChart_handler JSON_parse (\<lambda>config fmt save. Inr (result_of config fmt save))
          chartConfig outputFormat saveToFile = Inr [block]"
    by (rule handler_one_block) simp
  then have one: "\<exists>blocks. generateChart_handler JSON_parse
        (\<lambda>config fmt save. Inr (result_of config fmt save))
        chartConfig outputFormat saveToFile = Inr blocks \<and> length blocks = 1"
    by auto
  have fallback: "generateChart_handler JSON_parse (\<lambda>config fmt save. Inr (result_of config fmt save))
            chartConfig outputFormat saveToFile =
          Inr [TextContent (message (result_of config outputFormat saveToFile)) None None]"
    if "validateChartConfig JSON_parse chartConfig = Inr config"
      and "success (result_of config outputFormat saveToFile)"
      and "htmlSnippet (result_of config outputFormat saveToFile) = None"
      and "buffer (result_of config outputFormat saveToFile) = None"
      and "pngFilePath (result_of config outputFormat saveToFile) = None"
    using that by (intro handler_fallback [where config = config]) simp_all
  from one fallback show ?thesis by blast
qed

theorem handler_single_block_witness:
  "validateChartConfig sample_JSON_parse bar_config = Inr bar_config
   \<and> generateChart_handler sample_JSON_parse
       (\<lambda>config fmt save. Inr \<lparr>success = True, message = ''Chart generated'',
          htmlSnippet = None, buffer = None, pngFilePath = None\<rparr>)
       bar_config Png False =
     Inr [TextContent ''Chart generated'' None None]"
proof -
  from handler_single_block [of sample_JSON_parse
      "\<lambda>config fmt save. \<lparr>success = True, message = ''Chart generated'',
          htmlSnippet = None, buffer = None, pngFilePath = None\<rparr>" bar_config Png False bar_config]
    bar_config_valid [of sample_JSON_parse]
  show ?thesis by simp
qed

text \<open>
  C6, as stated, fails where the engine rejects a configuration that passed validation:
  the render adapter then yields the failure variant, and the handler answers with the
  failure text, not with an image block.
\<close>

theorem png_failure_counterexample:
  "validateChartConfig sample_JSON_parse bar_config = Inr bar_config
   \<and> generateChart_handler sample_JSON_parse (generateChart_spec failing_engine) bar_config
       Png False =
     Inr [TextContent (''Error generating chart'' @ troubleshooting_footer) None None]"
  by (simp add: bar_config_valid generateChart_handler_def generateChart_spec_def render_def
      failing_engine_def)

text \<open>
  C6, amended: for every configuration that passes validation and that the engine draws
  as a PNG, with \<open>outputFormat\<close> \<open>png\<close> and \<open>saveToFile\<close> false the handler returns
  exactly one block, an image block whose data is the base64 encoding of the drawn bytes
  and whose media type is \<open>image/png\<close>; with \<open>saveToFile\<close> true, where the render
  yields the (non-empty) path of the saved file instead of the bytes, it returns exactly
  one text block carrying the path.
\<close>

theorem png_result_blocks:
  assumes "validateChartConfig JSON_parse chartConfig = Inr config"
    and "draw_png engine config = Inr bytes"
  shows "generateChart_handler JSON_parse (generateChart_spec engine) chartConfig Png False =
           Inr [ImageContent (base64 bytes) ''image/png'']
         \<and> (save_png engine bytes \<noteq> [] \<longrightarrow>
            generateChart_handler JSON_parse (generateChart_spec engine) chartConfig Png True =
              Inr [TextContent (save_png engine bytes) None None])"
  using assms
  by (simp add: generateChart_handler_def generateChart_spec_def render_def split: list.splits)

theorem png_result_blocks_witness:
  "validateChartConfig sample_JSON_parse bar_config = Inr bar_config
   \<and> draw_png sample_engine bar_config = Inr [0x89, 0x50, 0x4E, 0x47]
   \<and> generateChart_handler sample_JSON_parse (generateChart_spec sample_engine) bar_config
       Png False = Inr [ImageContent ''iVBORw=='' ''image/png'']
   \<and> generateChart_handler sample_JSON_parse (generateChart_spec sample_engine) bar_config
       Png True = Inr [TextContent ''chart-1.png'' None None]"
proof -
  have drawn: "draw_png sample_engine bar_config = Inr [0x89, 0x50, 0x4E, 0x47]"
    and saved: "save_png sample_engine [0x89, 0x50, 0x4E, 0x47] = ''chart-1.png''"
    by (simp_all add: sample_engine_def)
  from png_result_blocks [of sample_JSON_parse bar_config bar_config sample_engine
      "[0x89, 0x50, 0x4E, 0x47]"] drawn saved
    base64_sample bar_config_valid [of sample_JSON_parse]
  show ?thesis by simp
qed

text \<open>
  C7, as stated, fails where the engine throws on a configuration that passed
  validation: the handler then returns the failure text, a block without the HTML
  media type that does not carry markup.
\<close>

theorem html_failure_counterexample:
  "validateChartConfig sample_JSON_parse bar_config = Inr bar_config
   \<and> generateChart_handler sample_JSON_parse (generateChart_spec failing_engine) bar_config
       Html False =
     Inr [TextContent (''Error generating chart'' @ troubleshooting_footer) None None]"
  by (simp add: bar_config_valid generateChart_handler_def generateChart_spec_def render_def
      failing_engine_def)

text \<open>
  C7, amended: for every configuration that passes validation and for which the engine
  produces (non-empty) markup, with \<open>outputFormat\<close> \<open>html\<close> the handler returns exactly
  one block, a text block carrying the markup and tagged \<open>text/html\<close>, and so no image
  block.
\<close>

theorem html_result_block:
  assumes "validateChartConfig JSON_parse chartConfig = Inr config"
    and "draw_html engine config = Inr markup" and "markup \<noteq> []"
  shows "generateChart_handler JSON_parse (generateChart_spec engine) chartConfig Html saveToFile =
           Inr [TextContent markup (Some ''text/html'') (Some ''text/html'')]
         \<and> filter is_image [TextContent markup (Some ''text/html'') (Some ''text/html'')] = []"
  using assms
  by (simp add: generateChart_handler_def generateChart_spec_def render_def split: list.splits)

theorem html_result_block_witness:
  "validateChartConfig sample_JSON_parse bar_config = Inr bar_config
   \<and> draw_html sample_engine bar_config = Inr ''<div><canvas id=chart-1></canvas></div>''
   \<and> generateChart_handler sample_JSON_parse (generateChart_spec sample_engine) bar_config
       Html False =
     Inr [TextContent ''<div><canvas id=chart-1></canvas></div>'' (Some ''text/html'')
            (Some ''text/html'')]"
proof -
  have drawn: "draw_html sample_engine bar_config = Inr ''<div><canvas id=chart-1></canvas></div>''"
    by (simp add: sample_engine_def)
  from html_result_block [of sample_JSON_parse bar_config bar_config sample_engine
      "''<div><canvas id=chart-1></canvas></div>''" False] drawn
    bar_config_valid [of sample_JSON_parse]
  show ?thesis by simp
qed

section \<open>Facts about the session registry\<close>

lemma create_on_post:
  "\<not> truthy_header header \<Longrightarrow>
   request_listener s ''/mcp'' ''POST'' header =
     (Create (constructed s), s\<lparr>constructed := Suc (constructed s)\<rparr>)"
  by (cases header rule: truthy_header.cases) (simp_all add: request_listener_def)

lemma handshake_stores: "transports (handshake t sid s) sid = Some t"
  by (simp add: handshake_def onsessioninitialized_def)

lemma handshake_sessionId: "sessionId (handshake t sid s) t = Some sid"
  by (simp add: handshake_def onsessioninitialized_def)

lemma reuse_stored:
  "sid \<noteq> [] \<Longrightarrow> transports s sid = Some t \<Longrightarrow>
   request_listener s ''/mcp'' method (Some sid) = (Reuse t, s)"
  by (cases sid) (simp_all add: request_listener_def)

lemma onclose_removes:
  "sid \<noteq> [] \<Longrightarrow> sessionId s t = Some sid \<Longrightarrow> transports (onclose t s) sid = None"
  by (cases sid) (simp_all add: onclose_def)

lemma unknown_session_rejected:
  "sid \<noteq> [] \<Longrightarrow> transports s sid = None \<Longrightarrow>
   request_listener s ''/mcp'' method (Some sid) = (Respond 400 no_session_body, s)"
  by (cases sid) (simp_all add: request_listener_def)

lemma no_session_non_post_rejected:
  "\<not> truthy_header header \<Longrightarrow> method \<noteq> ''POST'' \<Longrightarrow>
   request_listener s ''/mcp'' method header = (Respond 400 no_session_body, s)"
  by (cases header rule: truthy_header.cases) (simp_all add: request_listener_def)

lemma error_code: "get_prop (get_prop no_session_body ''error'') ''code'' = JNum (- 32000)"
  by (simp add: no_session_body_def)

lemma listener_keeps_maps:
  "transports (snd (request_listener s pathname method header)) = transports s
   \<and> sessionId (snd (request_listener s pathname method header)) = sessionId s"
  by (simp add: request_listener_def split: option.splits)

lemma step_owns:
  assumes "owns s sid t" and "other_session sid t e"
  shows "owns (step s e) sid t"
proof (cases e)
  case (Request p m h)
  with assms(1) show ?thesis by (simp add: owns_def listener_keeps_maps)
next
  case (Handshake t' sid')
  with assms show ?thesis
    by (auto simp add: owns_def handshake_def onsessioninitialized_def)
next
  case (Closed t')
  with assms show ?thesis
    by (auto simp add: owns_def onclose_def split: option.splits list.splits)
qed

lemma run_owns:
  "owns s sid t \<Longrightarrow> list_all (other_session sid t) es \<Longrightarrow> owns (run s es) sid t"
  unfolding run_def
  by (induction es arbitrary: s) (simp_all add: step_owns)

lemma handshake_owns:
  "(\<forall>t'. sessionId s t' \<noteq> Some sid) \<Longrightarrow> owns (handshake t sid s) sid t"
  by (simp add: owns_def handshake_def onsessioninitialized_def)

lemma owner_reused:
  "sid \<noteq> [] \<Longrightarrow> owns s sid t \<Longrightarrow>
   request_listener s ''/mcp'' method (Some sid) = (Reuse t, s)"
  by (simp add: owns_def reuse_stored)

lemma owner_closed:
  "sid \<noteq> [] \<Longrightarrow> owns s sid t \<Longrightarrow> sessionId s t = Some sid \<Longrightarrow>
   request_listener (onclose t s) ''/mcp'' method (Some sid) =
     (Respond 400 no_session_body, onclose t s)"
  by (simp add: onclose_removes unknown_session_rejected)

lemma step_keeps_sessionId:
  "sessionId s t = Some sid \<Longrightarrow> other_session sid t e \<Longrightarrow> sessionId (step s e) t = Some sid"
  by (cases e)
    (auto simp add: listener_keeps_maps handshake_def onsessioninitialized_def onclose_def
      split: option.splits list.splits)

lemma run_keeps_sessionId:
  "sessionId s t = Some sid \<Longrightarrow> list_all (other_session sid t) es \<Longrightarrow>
   sessionId (run s es) t = Some sid"
  unfolding run_def
  by (induction es arbitrary: s) (simp_all add: step_keeps_sessionId)

text \<open>
  C3: the life of a session. From any state of the registry, a POST to \<open>/mcp\<close> with
  no session header constructs exactly one transport and leaves the map as it was; the
  handshake of that transport stores it under its freshly generated id \<open>sid\<close>; after
  any further events of other sessions (requests, handshakes and closures of other
  transports), a request with that id in its header, of any method, goes to that same
  transport and constructs none; once the transport has reported its closure the entry
  is gone, and a request with the stale id is answered 400 as having no valid session.
  The last three conjuncts say the same of any state: a stored id is reused, the
  closure of a transport removes its id, an id that is not stored is rejected.
\<close>

theorem session_lifecycle:
  assumes "sid \<noteq> []" and "\<not> truthy_header header"
    and "\<forall>t'. sessionId s t' \<noteq> Some sid"
    and "list_all (other_session sid (constructed s)) es"
  shows "request_listener s ''/mcp'' ''POST'' header =
           (Create (constructed s), s\<lparr>constructed := Suc (constructed s)\<rparr>)
         \<and> transports (s\<lparr>constructed := Suc (constructed s)\<rparr>) = transports s
         \<and> transports (handshake (constructed s) sid (s\<lparr>constructed := Suc (constructed s)\<rparr>)) sid =
             Some (constructed s)
         \<and> (let s2 = run (handshake (constructed s) sid (s\<lparr>constructed := Suc (constructed s)\<rparr>)) es
            in request_listener s2 ''/mcp'' method (Some sid) = (Reuse (constructed s), s2)
              \<and> (let s3 = onclose (constructed s) s2
                 in transports s3 sid = None
                   \<and> request_listener s3 ''/mcp'' method (Some sid) =
                       (Respond 400 no_session_body, s3)))
         \<and> (\<forall>s' t. transports s' sid = Some t \<longrightarrow>
               request_listener s' ''/mcp'' method (Some sid) = (Reuse t, s'))
         \<and> (\<forall>s' t. sessionId s' t = Some sid \<longrightarrow> transports (onclose t s') sid = None)
         \<and> (\<forall>s'. transports s' sid = None \<longrightarrow>
               request_listener s' ''/mcp'' method (Some sid) = (Respond 400 no_session_body, s'))"
proof -
  let ?t = "constructed s"
  let ?s1 = "s\<lparr>constructed := Suc (constructed s)\<rparr>"
  let ?s2 = "run (handshake ?t sid ?s1) es"
  let ?s3 = "onclose ?t ?s2"
  have created: "request_listener s ''/mcp'' ''POST'' header = (Create ?t, ?s1)"
    using assms(2) by (rule create_on_post)
  have stored: "transports (handshake ?t sid ?s1) sid = Some ?t"
    by (rule handshake_stores)
  have "owns (handshake ?t sid ?s1) sid ?t"
    using assms(3) by (intro handshake_owns) simp
  then have own: "owns ?s2 sid ?t"
    using assms(4) by (rule run_owns)
  have its_id: "sessionId ?s2 ?t = Some sid"
    using handshake_sessionId assms(4) by (rule run_keeps_sessionId)
  have reused: "request_listener ?s2 ''/mcp'' method (Some sid) = (Reuse ?t, ?s2)"
    using assms(1) own by (rule owner_reused)
  have removed: "transports ?s3 sid = None"
    using assms(1) its_id by (rule onclose_removes)
  have stale: "request_listener ?s3 ''/mcp'' method (Some sid) = (Respond 400 no_session_body, ?s3)"
    using assms(1) removed by (rule unknown_session_rejected)
  from created stored reused removed stale show ?thesis
    using assms(1) by (simp add: Let_def reuse_stored onclose_removes unknown_session_rejected)
qed

theorem session_lifecycle_witness:
  "request_listener empty_registry ''/mcp'' ''POST'' None =
     (Create 0, empty_registry\<lparr>constructed := 1\<rparr>)
   \<and> transports (handshake 0 ''s-1'' (empty_registry\<lparr>constructed := 1\<rparr>)) ''s-1'' = Some 0
   \<and> list_all (other_session ''s-1'' 0)
        [Request ''/mcp'' ''POST'' None, Handshake 1 ''s-2'', Closed 1]
   \<and> fst (request_listener
        (run (handshake 0 ''s-1'' (empty_registry\<lparr>constructed := 1\<rparr>))
           [Request ''/mcp'' ''POST'' None, Handshake 1 ''s-2'', Closed 1])
        ''/mcp'' ''GET'' (Some ''s-1'')) = Reuse 0
   \<and> fst (request_listener
        (onclose 0 (run (handshake 0 ''s-1'' (empty_registry\<lparr>constructed := 1\<rparr>))
           [Request ''/mcp'' ''POST'' None, Handshake 1 ''s-2'', Closed 1]))
        ''/mcp'' ''GET'' (Some ''s-1'')) = Respond 400 no_session_body"
proof -
  have zero: "constructed empty_registry = 0"
    and fresh: "\<forall>t'. sessionId empty_registry t' \<noteq> Some ''s-1''"
    by (simp_all add: empty_registry_def)
  have others: "list_all (other_session ''s-1'' 0)
        [Request ''/mcp'' ''POST'' None, Handshake 1 ''s-2'', Closed 1]"
    by simp
  from session_lifecycle [of "''s-1''" None empty_registry
      "[Request ''/mcp'' ''POST'' None, Handshake 1 ''s-2'', Closed 1]" "''GET''"]
    zero fresh others
  show ?thesis by (simp add: Let_def)
qed

text \<open>
  C4, as stated, fails for a session header that is present and empty: the empty id is
  not in the registry, yet a POST carrying it is taken for a request without session
  and a transport is constructed for it.
\<close>

theorem empty_header_counterexample:
  "transports empty_registry [] = None
   \<and> request_listener empty_registry ''/mcp'' ''POST'' (Some []) =
       (Create 0, empty_registry\<lparr>constructed := 1\<rparr>)"
  by (simp add: empty_registry_def request_listener_def)

text \<open>
  C4, amended: a request to \<open>/mcp\<close> that carries a non-empty session id that is not
  in the registry, or that is not a POST and carries no session id (no header, or an
  empty one), is answered by the server itself with status 400 and the fixed body,
  whose \<open>error.code\<close> is \<open>-32000\<close>; no transport is reached or constructed and the
  registry is unchanged.
\<close>

theorem unknown_session_bad_request:
  "(sid \<noteq> [] \<and> transports s sid = None \<longrightarrow>
      request_listener s ''/mcp'' method (Some sid) = (Respond 400 no_session_body, s))
   \<and> (\<not> truthy_header header \<and> method \<noteq> ''POST'' \<longrightarrow>
      request_listener s ''/mcp'' method header = (Respond 400 no_session_body, s))
   \<and> get_prop no_session_body ''jsonrpc'' = JStr ''2.0''
   \<and> get_prop (get_prop no_session_body ''error'') ''code'' = JNum (- 32000)"
  using unknown_session_rejected no_session_non_post_rejected error_code
  by (simp add: no_session_body_def)

theorem unknown_session_bad_request_witness:
  "request_listener empty_registry ''/mcp'' ''DELETE'' (Some ''stale'') =
     (Respond 400 no_session_body, empty_registry)
   \<and> request_listener empty_registry ''/mcp'' ''GET'' None =
     (Respond 400 no_session_body, empty_registry)"
proof -
  have absent: "transports empty_registry ''stale'' = None"
    by (simp add: empty_registry_def)
  from unknown_session_bad_request [of "''stale''" empty_registry "''DELETE''" None]
    unknown_session_bad_request [of "''stale''" empty_registry "''GET''" None] absent
  show ?thesis by simp
qed

section \<open>Facts about the entry point\<close>

lemma parseInt_3000: "parseInt (js ''3000'') = Number 3000"
  by (simp add: parseInt_def js_def is_space_def is_digit_def digits_value_def to_double_def)

lemma parseInt_rounds: "parseInt (js ''9007199254740993'') = Number 9007199254740992"
proof -
  have "bit_length 9007199254740993 = 54"
    by (simp add: bit_length.simps)
  then have rounded: "to_double 9007199254740993 = Some 9007199254740992"
    by (simp add: to_double_def Let_def)
  have "digits_value (js ''9007199254740993'') = 9007199254740993"
    by (simp add: js_def digits_value_def)
  then show ?thesis
    by (simp add: parseInt_def js_def is_space_def is_digit_def rounded)
qed

lemma stdio_default:
  "find (\<lambda>arg. startsWith arg (js ''--transport='')) args = None \<Longrightarrow> main args PORT = Stdio"
  by (simp add: main_def transport_def value_of_arg_def js_def)

lemma main_uses_port:
  "transport args = js ''streamable-http'' \<Longrightarrow> main args PORT = StreamableHttp (port args PORT)"
  by (simp add: main_def)

lemma main_else_stdio:
  "transport args \<noteq> js ''streamable-http'' \<Longrightarrow> main args PORT = Stdio"
  by (simp add: main_def)

lemma port_default:
  "find (\<lambda>arg. startsWith arg (js ''--port='')) args = None \<Longrightarrow> port args None = Number 3000"
  by (simp add: port_def value_of_arg_def parseInt_3000)

lemma port_env: "e \<noteq> [] \<Longrightarrow> port args (Some e) = parseInt e"
  by (cases e) (simp_all add: port_def)

lemma port_arg:
  assumes "PORT = None \<or> PORT = Some []"
    and "value_of_arg (find (\<lambda>arg. startsWith arg (js ''--port='')) args) = Some v"
    and "v \<noteq> []"
  shows "port args PORT = parseInt v"
  using assms by (cases v) (auto simp add: port_def)

lemma port_neither:
  assumes "PORT = None \<or> PORT = Some []"
    and "value_of_arg (find (\<lambda>arg. startsWith arg (js ''--port='')) args) = None
         \<or> value_of_arg (find (\<lambda>arg. startsWith arg (js ''--port='')) args) = Some []"
  shows "port args PORT = Number 3000"
  using assms by (auto simp add: port_def parseInt_3000)

text \<open>
  C8: with no \<open>--transport=\<close> argument \<open>main\<close> starts the stdio transport, as it does
  for every mode but \<open>streamable-http\<close>; in streamable-http mode it starts the HTTP
  listener on \<open>port\<close>, which is 3000 with neither a \<open>--port=\<close> argument nor \<open>PORT\<close>
  in the environment; and when both are given the environment decides: a non-empty
  \<open>PORT\<close> is the listener's port whatever the arguments are, the argument is read only
  when \<open>PORT\<close> is unset or empty, and 3000 is taken only when the argument too is
  missing or has an empty value.
\<close>

theorem transport_selection:
  "(find (\<lambda>arg. startsWith arg (js ''--transport='')) args = None \<longrightarrow> main args PORT = Stdio)
   \<and> (transport args \<noteq> js ''streamable-http'' \<longrightarrow> main args PORT = Stdio)
   \<and> (transport args = js ''streamable-http'' \<longrightarrow>
        main args PORT = StreamableHttp (port args PORT))
   \<and> (transport args = js ''streamable-http''
        \<and> find (\<lambda>arg. startsWith arg (js ''--port='')) args = None \<longrightarrow>
      main args None = StreamableHttp (Number 3000))
   \<and> (e \<noteq> [] \<longrightarrow> port args (Some e) = parseInt e)
   \<and> (transport args = js ''streamable-http'' \<and> e \<noteq> [] \<longrightarrow>
        main args (Some e) = StreamableHttp (parseInt e))
   \<and> ((PORT = None \<or> PORT = Some [])
        \<and> value_of_arg (find (\<lambda>arg. startsWith arg (js ''--port='')) args) = Some v
        \<and> v \<noteq> [] \<longrightarrow>
      port args PORT = parseInt v)
   \<and> (transport args = js ''streamable-http'' \<and> (PORT = None \<or> PORT = Some [])
        \<and> value_of_arg (find (\<lambda>arg. startsWith arg (js ''--port='')) args) = Some v
        \<and> v \<noteq> [] \<longrightarrow>
      main args PORT = StreamableHttp (parseInt v))
   \<and> ((PORT = None \<or> PORT = Some [])
        \<and> (value_of_arg (find (\<lambda>arg. startsWith arg (js ''--port='')) args) = None
           \<or> value_of_arg (find (\<lambda>arg. startsWith arg (js ''--port='')) args) = Some []) \<longrightarrow>
      port args PORT = Number 3000)
   \<and> (transport args = js ''streamable-http'' \<and> (PORT = None \<or> PORT = Some [])
        \<and> (value_of_arg (find (\<lambda>arg. startsWith arg (js ''--port='')) args) = None
           \<or> value_of_arg (find (\<lambda>arg. startsWith arg (js ''--port='')) args) = Some []) \<longrightarrow>
      main args PORT = StreamableHttp (Number 3000))"
proof -
  have stdio: "find (\<lambda>arg. startsWith arg (js ''--transport='')) args = None \<longrightarrow>
      main args PORT = Stdio"
    by (simp add: stdio_default)
  have other: "transport args \<noteq> js ''streamable-http'' \<longrightarrow> main args PORT = Stdio"
    by (simp add: main_else_stdio)
  have http: "transport args = js ''streamable-http'' \<longrightarrow>
      main args P = StreamableHttp (port args P)" for P
    by (simp add: main_uses_port)
  have default: "find (\<lambda>arg. startsWith arg (js ''--port='')) args = None \<longrightarrow>
      port args None = Number 3000"
    by (simp add: port_default)
  have env: "e \<noteq> [] \<longrightarrow> port args (Some e) = parseInt e"
    by (simp add: port_env)
  have arg: "(PORT = None \<or> PORT = Some [])
        \<and> value_of_arg (find (\<lambda>arg. startsWith arg (js ''--port='')) args) = Some v
        \<and> v \<noteq> [] \<longrightarrow> port args PORT = parseInt v"
    using port_arg [of PORT args v] by blast
  have neither: "(PORT = None \<or> PORT = Some [])
        \<and> (value_of_arg (find (\<lambda>arg. startsWith arg (js ''--port='')) args) = None
           \<or> value_of_arg (find (\<lambda>arg. startsWith arg (js ''--port='')) args) = Some []) \<longrightarrow>
      port args PORT = Number 3000"
    using port_neither [of PORT args] by blast
  from stdio other http [of PORT] http [of None] http [of "Some e"] default env arg neither
  show ?thesis by metis
qed

theorem transport_selection_witness:
  "main [] (Some (js ''5000'')) = Stdio
   \<and> main [js ''--transport=streamable-http''] None = StreamableHttp (Number 3000)
   \<and> main [js ''--transport=streamable-http'', js ''--port=8080''] (Some (js ''5000'')) =
       StreamableHttp (Number 5000)
   \<and> main [js ''--transport=streamable-http'', js ''--port=8080''] None =
       StreamableHttp (Number 8080)
   \<and> main [js ''--transport=streamable-http'', js ''--port=8080''] (Some []) =
       StreamableHttp (Number 8080)
   \<and> main [js ''--transport=streamable-http'', js ''--port=''] (Some []) =
       StreamableHttp (Number 3000)"
proof -
  have five: "parseInt (js ''5000'') = Number 5000"
    and eight: "parseInt (js ''8080'') = Number 8080"
    by (simp_all add: parseInt_def js_def is_space_def is_digit_def digits_value_def
        to_double_def)
  have nonempty: "js ''5000'' \<noteq> []" "js ''8080'' \<noteq> []"
    by (simp_all add: js_def)
  have no_flag: "find (\<lambda>arg. startsWith arg (js ''--transport='')) [] = None"
    by simp
  have t1: "transport [js ''--transport=streamable-http''] = js ''streamable-http''"
    and t2: "transport [js ''--transport=streamable-http'', js ''--port=8080''] =
               js ''streamable-http''"
    and t3: "transport [js ''--transport=streamable-http'', js ''--port=''] =
               js ''streamable-http''"
    by (simp_all add: transport_def value_of_arg_def startsWith_def js_def)
  have no_port: "find (\<lambda>arg. startsWith arg (js ''--port=''))
                   [js ''--transport=streamable-http''] = None"
    by (simp add: startsWith_def js_def)
  have v: "value_of_arg (find (\<lambda>arg. startsWith arg (js ''--port=''))
             [js ''--transport=streamable-http'', js ''--port=8080'']) = Some (js ''8080'')"
    and v_empty: "value_of_arg (find (\<lambda>arg. startsWith arg (js ''--port=''))
             [js ''--transport=streamable-http'', js ''--port='']) = Some []"
    by (simp_all add: value_of_arg_def startsWith_def js_def)
  from transport_selection [of "[]" "Some (js ''5000'')" "js ''5000''" "js ''8080''"] no_flag
  have a: "main [] (Some (js ''5000'')) = Stdio" by blast
  from transport_selection [of "[js ''--transport=streamable-http'']" None "js ''5000''"
      "js ''8080''"] t1 no_port
  have b: "main [js ''--transport=streamable-http''] None = StreamableHttp (Number 3000)"
    by blast
  from transport_selection [of "[js ''--transport=streamable-http'', js ''--port=8080'']" None
      "js ''5000''" "js ''8080''"] t2 v nonempty five eight
  have c: "main [js ''--transport=streamable-http'', js ''--port=8080''] (Some (js ''5000'')) =
       StreamableHttp (Number 5000)"
    and d: "main [js ''--transport=streamable-http'', js ''--port=8080''] None =
       StreamableHttp (Number 8080)"
    by metis+
  from transport_selection [of "[js ''--transport=streamable-http'', js ''--port=8080'']"
      "Some []" "js ''5000''" "js ''8080''"] t2 v nonempty eight
  have e: "main [js ''--transport=streamable-http'', js ''--port=8080''] (Some []) =
       StreamableHttp (Number 8080)"
    by metis
  from transport_selection [of "[js ''--transport=streamable-http'', js ''--port='']"
      "Some []" "js ''5000''" "js ''8080''"] t3 v_empty
  have f: "main [js ''--transport=streamable-http'', js ''--port=''] (Some []) =
       StreamableHttp (Number 3000)"
    by metis
  from a b c d e f show ?thesis by blast
qed

end
